theory Spec2Isabelle
  imports Complex_Main "HOL-Library.Sublist"
begin

section \<open>Data model of the call manager\<close>

text \<open>
  The engine is the singleton \<open>CallManager\<close> of \<open>engine/callManager.js\<close>. Its methods run
  on the JavaScript event loop: a method body runs without interruption up to its next
  \<open>await\<close>, where it is parked until the awaited provider call or timer completes. The
  embedding keeps that structure. The whole program state is one record \<open>world\<close>; every
  synchronous stretch of code is a function \<open>world \<Rightarrow> world\<close>; every parked continuation is
  a \<open>task\<close> stored in the world; and the things that can happen next (a method call, a
  timer expiring, a provider answering) are the constructors of \<open>event\<close>.

  Session objects, the arrays they point to and the sockets live in explicit stores,
  because \<open>{ ...callState }\<close> copies a session shallowly: the copy is a new object whose
  \<open>history\<close> and \<open>audioBuffer\<close> still point to the arrays of the original.
\<close>

type_synonym callSid = string
type_synonym ref = nat
type_synonym handle = nat
type_synonym tid = nat
type_synonym frame = "nat list"

datatype role = User | Assistant

datatype turn = Turn (role: role) (content: string)

datatype scenario = BOOKING | CANCELLATION

text \<open>The loudness handed over by \<open>server.js\<close> is \<open>Math.sqrt(sumSquares / n)\<close>, which is
  \<open>NaN\<close> for a frame without samples.\<close>

datatype number = Num real | NaN

datatype readyState = CONNECTING | OPEN | CLOSING | CLOSED

record socket =
  readyState :: readyState
  sent :: "int list list"

record callState =
  history :: ref
  isBookingConfirmed :: bool
  scenario :: scenario
  targetLanguage :: string
  symptom :: string
  startTime :: nat
  audioBuffer :: ref
  silenceTimer :: "handle option"
  watchdogTimeout :: "handle option"
  hasSpoken :: bool
  isProcessing :: bool
  isEnding :: bool
  ws :: "ref option"
  packetCount :: nat
  lastIntentProcessed :: bool
  ctxLatestReceivedOTP :: "string option"

text \<open>What a pending \<open>setTimeout\<close> will run: the callback together with the variables its
  closure captured.\<close>

datatype callback =
    SilenceCb ref callSid ref
  | WatchdogCb ref callSid string
  | SleepCb tid

record timer =
  due :: nat
  callback :: callback

text \<open>Who is awaiting \<open>playAIResponse\<close>: the timer callback of a turn cycle (whose
  \<open>finally\<close> block then runs on the captured session object) or nobody.\<close>

datatype kont = KTop | KCycle ref

datatype task =
    AwaitSTT ref callSid ref
  | AwaitFilter ref callSid ref string string
  | AwaitLLM ref callSid ref string callState
  | AwaitLLMTrigger ref callSid ref
  | AwaitTTS callSid ref kont
  | Pacing callSid ref "int list" nat kont
  | EndWait ref callSid nat
  | AwaitReport ref callSid

datatype request =
    SttReq "nat list"
  | FilterReq string string string
  | LlmReq string "string option"
  | TtsReq string string
  | ReportReq callSid

datatype llmResult = LlmReply string | LlmError

datatype ttsResult = TtsAudio "int list" | TtsUnreadable

record report =
  status :: string
  confirmed :: "bool option"

datatype reportLine =
    Graded callSid scenario "report option"
  | Skipped callSid

record world =
  activeCalls :: "callSid \<rightharpoonup> ref"
  nextScenario :: scenario
  pendingTestLanguage :: string
  manualOverrideResponse :: "string option"
  latestReceivedOTP :: "string option"
  objs :: "ref \<Rightarrow> callState"
  nextObj :: nat
  turnArrs :: "ref \<Rightarrow> turn list"
  nextTurnArr :: nat
  frameArrs :: "ref \<Rightarrow> frame list"
  nextFrameArr :: nat
  socks :: "ref \<Rightarrow> socket"
  timers :: "handle \<rightharpoonup> timer"
  nextTimer :: nat
  tasks :: "tid \<rightharpoonup> task"
  nextTask :: nat
  now :: nat
  requests :: "request list"
  reports :: "reportLine list"

section \<open>Primitives of the runtime\<close>

definition upd_obj :: "ref \<Rightarrow> (callState \<Rightarrow> callState) \<Rightarrow> world \<Rightarrow> world" where
  "upd_obj a f w = w\<lparr>objs := (objs w)(a := f (objs w a))\<rparr>"

definition push_turn :: "ref \<Rightarrow> turn \<Rightarrow> world \<Rightarrow> world" where
  "push_turn h t w = w\<lparr>turnArrs := (turnArrs w)(h := turnArrs w h @ [t])\<rparr>"

definition push_frame :: "ref \<Rightarrow> frame \<Rightarrow> world \<Rightarrow> world" where
  "push_frame b f w = w\<lparr>frameArrs := (frameArrs w)(b := frameArrs w b @ [f])\<rparr>"

text \<open>\<open>setTimeout\<close> returns a fresh handle, which is \<open>nextTimer\<close> of the world it is
  applied to; \<open>clearTimeout\<close> on a handle that already fired or was cleared does nothing.\<close>

definition setTimeout :: "callback \<Rightarrow> nat \<Rightarrow> world \<Rightarrow> world" where
  "setTimeout cb ms w =
     w\<lparr>timers := (timers w)(nextTimer w \<mapsto> \<lparr>due = now w + ms, callback = cb\<rparr>),
       nextTimer := nextTimer w + 1\<rparr>"

definition clearTimeout :: "handle \<Rightarrow> world \<Rightarrow> world" where
  "clearTimeout h w = w\<lparr>timers := (timers w)(h := None)\<rparr>"

definition spawn :: "task \<Rightarrow> world \<Rightarrow> world" where
  "spawn t w = w\<lparr>tasks := (tasks w)(nextTask w \<mapsto> t), nextTask := nextTask w + 1\<rparr>"

definition retire :: "tid \<Rightarrow> world \<Rightarrow> world" where
  "retire k w = w\<lparr>tasks := (tasks w)(k := None)\<rparr>"

text \<open>\<open>await new Promise(r => setTimeout(r, ms))\<close>: park the continuation and arm the timer
  that wakes it.\<close>

definition sleep :: "nat \<Rightarrow> task \<Rightarrow> world \<Rightarrow> world" where
  "sleep ms t w = setTimeout (SleepCb (nextTask w)) ms (spawn t w)"

definition request :: "request \<Rightarrow> world \<Rightarrow> world" where
  "request r w = w\<lparr>requests := requests w @ [r]\<rparr>"

definition emit :: "reportLine \<Rightarrow> world \<Rightarrow> world" where
  "emit l w = w\<lparr>reports := reports w @ [l]\<rparr>"

definition close_socket :: "ref \<Rightarrow> world \<Rightarrow> world" where
  "close_socket s w = w\<lparr>socks := (socks w)(s := (socks w s)\<lparr>readyState := CLOSING\<rparr>)\<rparr>"

definition send :: "ref \<Rightarrow> int list \<Rightarrow> world \<Rightarrow> world" where
  "send s payload w = w\<lparr>socks := (socks w)(s := (socks w s)\<lparr>sent := sent (socks w s) @ [payload]\<rparr>)\<rparr>"

text \<open>\<open>Array.prototype.slice(-n)\<close>: a new array holding the last \<open>n\<close> elements.\<close>

definition slice_last :: "nat \<Rightarrow> 'a list \<Rightarrow> 'a list" where
  "slice_last n xs = drop (length xs - n) xs"

text \<open>\<open>String.prototype.trim\<close>, on the code units below 256.\<close>

definition is_ws :: "char \<Rightarrow> bool" where
  "is_ws c = (of_char c \<in> {9, 10, 11, 12, 13, 32, 160 :: nat})"

definition js_trim :: "string \<Rightarrow> string" where
  "js_trim s = rev (dropWhile is_ws (rev (dropWhile is_ws s)))"

text \<open>Truthiness of a string-or-null value: \<open>null\<close> and the empty string are falsy.\<close>

fun truthy :: "string option \<Rightarrow> bool" where
  "truthy None = False"
| "truthy (Some s) = (s \<noteq> [])"

definition buffer_of :: "world \<Rightarrow> ref \<Rightarrow> frame list" where
  "buffer_of w a = frameArrs w (audioBuffer (objs w a))"

definition history_of :: "world \<Rightarrow> ref \<Rightarrow> turn list" where
  "history_of w a = turnArrs w (history (objs w a))"

section \<open>Session registry and watchdog\<close>

definition resetWatchdog :: "callSid \<Rightarrow> nat \<Rightarrow> string \<Rightarrow> world \<Rightarrow> world" where
  "resetWatchdog callSid ms reason w =
     (case activeCalls w callSid of
        None \<Rightarrow> w
      | Some a \<Rightarrow>
          let w1 = (case watchdogTimeout (objs w a) of
                      None \<Rightarrow> w
                    | Some h \<Rightarrow> clearTimeout h w);
              w2 = setTimeout (WatchdogCb a callSid reason) ms w1
          in upd_obj a (\<lambda>s. s\<lparr>watchdogTimeout := Some (nextTimer w1)\<rparr>) w2)"

definition UNREACHABLE_REASON :: string where
  "UNREACHABLE_REASON = ''Target bot unreachable (no connection) for 2 minutes.''"

definition symptomOptions :: "string list" where
  "symptomOptions = [''fever'', ''severe headache'', ''stomach ache'', ''lower back pain'',
     ''persistent cough'', ''sore throat'', ''knee pain'', ''body fatigue'', ''skin rash'',
     ''mild chest pain'']"

text \<open>\<open>rnd\<close> stands for \<open>Math.floor(Math.random() * symptomOptions.length)\<close>, a number
  below the length of the list.\<close>

definition startCall :: "callSid \<Rightarrow> ref option \<Rightarrow> nat \<Rightarrow> world \<Rightarrow> world" where
  "startCall callSid sock rnd w =
     (let currentScenario = nextScenario w;
          currentLanguage = (if pendingTestLanguage w = [] then ''English''
                             else pendingTestLanguage w);
          w1 = w\<lparr>manualOverrideResponse := None\<rparr>;
          w2 = resetWatchdog callSid 120000 UNREACHABLE_REASON w1
      in w2\<lparr>turnArrs := (turnArrs w2)(nextTurnArr w2 := []),
            nextTurnArr := nextTurnArr w2 + 1,
            frameArrs := (frameArrs w2)(nextFrameArr w2 := []),
            nextFrameArr := nextFrameArr w2 + 1,
            objs := (objs w2)(nextObj w2 :=
              \<lparr>history = nextTurnArr w2, isBookingConfirmed = False,
               scenario = currentScenario, targetLanguage = currentLanguage,
               symptom = symptomOptions ! (rnd mod length symptomOptions),
               startTime = now w2, audioBuffer = nextFrameArr w2,
               silenceTimer = None, watchdogTimeout = None, hasSpoken = False,
               isProcessing = False, isEnding = False, ws = sock, packetCount = 0,
               lastIntentProcessed = False, ctxLatestReceivedOTP = None\<rparr>),
            nextObj := nextObj w2 + 1,
            activeCalls := (activeCalls w2)(callSid \<mapsto> nextObj w2)\<rparr>)"

section \<open>Frame ingestion: buffer caps and loudness gate\<close>

definition LOUDNESS_THRESHOLD :: real where
  "LOUDNESS_THRESHOLD = 300"

text \<open>The two comparisons of the source, \<open>rms > LOUDNESS_THRESHOLD\<close> and
  \<open>rms <= LOUDNESS_THRESHOLD\<close>; both are false on \<open>NaN\<close>.\<close>

fun loud :: "number \<Rightarrow> bool" where
  "loud (Num r) = (r > LOUDNESS_THRESHOLD)"
| "loud NaN = False"

fun quiet :: "number \<Rightarrow> bool" where
  "quiet (Num r) = (r \<le> LOUDNESS_THRESHOLD)"
| "quiet NaN = False"

text \<open>\<open>callState.audioBuffer = callState.audioBuffer.slice(-n)\<close>.\<close>

definition trim_buffer :: "ref \<Rightarrow> nat \<Rightarrow> world \<Rightarrow> world" where
  "trim_buffer a n w =
     upd_obj a (\<lambda>s. s\<lparr>audioBuffer := nextFrameArr w\<rparr>)
       (w\<lparr>frameArrs := (frameArrs w)(nextFrameArr w := slice_last n (buffer_of w a)),
          nextFrameArr := nextFrameArr w + 1\<rparr>)"

definition cap_buffer :: "ref \<Rightarrow> world \<Rightarrow> world" where
  "cap_buffer a w =
     (let w1 = (if \<not> hasSpoken (objs w a) \<and> length (buffer_of w a) > 150
                then trim_buffer a 50 w else w)
      in if hasSpoken (objs w1 a) \<and> length (buffer_of w1 a) > 1400
         then trim_buffer a 1400 w1 else w1)"

definition on_loud :: "ref \<Rightarrow> world \<Rightarrow> world" where
  "on_loud a w =
     (let w1 = (case silenceTimer (objs w a) of
                  None \<Rightarrow> w
                | Some h \<Rightarrow> upd_obj a (\<lambda>s. s\<lparr>silenceTimer := None\<rparr>) (clearTimeout h w));
          w2 = (case watchdogTimeout (objs w1 a) of
                  None \<Rightarrow> w1
                | Some h \<Rightarrow> upd_obj a (\<lambda>s. s\<lparr>watchdogTimeout := None\<rparr>) (clearTimeout h w1))
      in upd_obj a (\<lambda>s. s\<lparr>hasSpoken := True\<rparr>) w2)"

definition arm_boundary :: "ref \<Rightarrow> callSid \<Rightarrow> ref \<Rightarrow> world \<Rightarrow> world" where
  "arm_boundary a callSid sock w =
     upd_obj a (\<lambda>s. s\<lparr>silenceTimer := Some (nextTimer w)\<rparr>)
       (setTimeout (SilenceCb a callSid sock) 1200 w)"

definition handleIncomingAudio :: "callSid \<Rightarrow> frame \<Rightarrow> ref \<Rightarrow> number \<Rightarrow> world \<Rightarrow> world" where
  "handleIncomingAudio callSid audioChunk sock rms w =
     (case activeCalls w callSid of
        None \<Rightarrow> w
      | Some a \<Rightarrow>
          let w1 = upd_obj a (\<lambda>s. s\<lparr>packetCount := packetCount s + 1\<rparr>) w;
              w2 = push_frame (audioBuffer (objs w1 a)) audioChunk w1;
              w3 = cap_buffer a w2;
              w4 = (if loud rms then on_loud a w3 else w3)
          in if quiet rms \<and> hasSpoken (objs w4 a) \<and> silenceTimer (objs w4 a) = None
             then arm_boundary a callSid sock w4 else w4)"

section \<open>Playback\<close>

definition VOLUME_MULTIPLIER :: real where
  "VOLUME_MULTIPLIER = 5 / 2"

text \<open>Storing a number into an element of an \<open>Int16Array\<close>: the fraction is dropped
  (towards zero) and the integer is wrapped modulo \<open>2^16\<close> into the signed range.\<close>

definition toInt16 :: "real \<Rightarrow> int" where
  "toInt16 x = ((if x \<ge> 0 then \<lfloor>x\<rfloor> else \<lceil>x\<rceil>) + 32768) mod 65536 - 32768"

text \<open>One iteration of the volume loop: \<open>samples[i] = clamp(samples[i] * 2.5)\<close>. The
  products of 16-bit integers with 2.5 are exact in double precision.\<close>

definition boost :: "int \<Rightarrow> int" where
  "boost sample =
     (let boosted = of_int sample * VOLUME_MULTIPLIER;
          boosted1 = (if boosted > 32767 then 32767 else boosted);
          boosted2 = (if boosted1 < - 32768 then - 32768 else boosted1)
      in toInt16 boosted2)"

definition HUNG_REASON :: string where
  "HUNG_REASON = ''Target bot hung (no response) for 45 seconds after AI spoke.''"

definition CHUNK_SIZE_BYTES :: nat where
  "CHUNK_SIZE_BYTES = 320"

text \<open>The \<open>finally\<close> block of the boundary timer's callback, on the session object the
  callback captured.\<close>

definition cycle_finally :: "ref \<Rightarrow> world \<Rightarrow> world" where
  "cycle_finally a w = upd_obj a (\<lambda>s. s\<lparr>isProcessing := False, silenceTimer := None\<rparr>) w"

fun resume :: "kont \<Rightarrow> world \<Rightarrow> world" where
  "resume KTop w = w"
| "resume (KCycle a) w = cycle_finally a w"

text \<open>The send loop of \<open>playAIResponse\<close>. \<open>bytes\<close> is what is left of the encoded audio
  from \<open>offset\<close> on and \<open>index\<close> the number of the chunk sent next. The \<open>\<mu>\<close>-law byte of a
  sample is computed by the \<open>wavefile\<close> package; a byte is kept here as the boosted
  sample it encodes. The watchdog is re-armed when the loop is left, also through
  \<open>break\<close>.\<close>

function pace :: "callSid \<Rightarrow> ref \<Rightarrow> int list \<Rightarrow> nat \<Rightarrow> kont \<Rightarrow> world \<Rightarrow> world" where
  "pace callSid sock bytes index k w =
     (if bytes = [] \<or> readyState (socks w sock) \<noteq> OPEN
      then resume k (resetWatchdog callSid 45000 HUNG_REASON w)
      else if index \<ge> 5
      then sleep 35 (Pacing callSid sock (drop CHUNK_SIZE_BYTES bytes) (index + 1) k)
             (send sock (take CHUNK_SIZE_BYTES bytes) w)
      else pace callSid sock (drop CHUNK_SIZE_BYTES bytes) (index + 1) k
             (send sock (take CHUNK_SIZE_BYTES bytes) w))"
  by pat_completeness auto
termination
  by (relation "measure (\<lambda>(callSid, sock, bytes, index, k, w). length bytes)")
     (auto simp: CHUNK_SIZE_BYTES_def)

definition play_audio :: "callSid \<Rightarrow> ref \<Rightarrow> int list \<Rightarrow> kont \<Rightarrow> world \<Rightarrow> world" where
  "play_audio callSid sock samples k w =
     (if readyState (socks w sock) = OPEN
      then pace callSid sock (map boost samples) 0 k w
      else resume k w)"

definition playAIResponse :: "callSid \<Rightarrow> string \<Rightarrow> ref \<Rightarrow> string \<Rightarrow> kont \<Rightarrow> world \<Rightarrow> world" where
  "playAIResponse callSid replyText sock languageCode k w =
     (case activeCalls w callSid of
        None \<Rightarrow> resume k w
      | Some a \<Rightarrow>
          if isEnding (objs w a) then resume k w
          else spawn (AwaitTTS callSid sock k)
                 (request (TtsReq replyText languageCode)
                   (upd_obj a (\<lambda>s. s\<lparr>hasSpoken := True\<rparr>)
                     (push_turn (history (objs w a)) (Turn Assistant replyText) w))))"

text \<open>\<open>textToStream\<close> never rejects; on a provider error it returns an empty buffer, which
  \<open>wav.fromBuffer\<close> cannot read (\<open>TtsUnreadable\<close>): the exception ends \<open>playAIResponse\<close>
  and is caught by the awaiting turn cycle.\<close>

definition tts_done :: "callSid \<Rightarrow> ref \<Rightarrow> kont \<Rightarrow> ttsResult \<Rightarrow> world \<Rightarrow> world" where
  "tts_done callSid sock k res w =
     (case res of
        TtsUnreadable \<Rightarrow> resume k w
      | TtsAudio samples \<Rightarrow> play_audio callSid sock samples k w)"

section \<open>Turn cycle\<close>

text \<open>\<open>this.activeCalls.set(callSid, updatedState)\<close>, where \<open>updatedState\<close> is an object
  nobody else refers to: it gets its address when it is registered.\<close>

definition register :: "callSid \<Rightarrow> callState \<Rightarrow> world \<Rightarrow> world" where
  "register callSid st w =
     w\<lparr>objs := (objs w)(nextObj w := st), nextObj := nextObj w + 1,
       activeCalls := (activeCalls w)(callSid \<mapsto> nextObj w)\<rparr>"

definition LOOP_NOTE :: string where
  "LOOP_NOTE = ''[Auto-Terminated by Tester: Target bot is stuck in an infinite loop]''"

text \<open>Lines 191 to 208 of the callback: the reply as a control token or as speech.\<close>

definition handle_reply ::
  "ref \<Rightarrow> callSid \<Rightarrow> ref \<Rightarrow> string \<Rightarrow> string \<Rightarrow> callState \<Rightarrow> world \<Rightarrow> world" where
  "handle_reply a callSid sock languageCode replyText updatedState w =
     (if js_trim replyText = ''WAIT''
      then cycle_finally a (register callSid updatedState w)
      else if js_trim replyText = ''END_CALL_LOOP''
      then let w1 = push_turn (history updatedState) (Turn Assistant LOOP_NOTE) w;
               w2 = register callSid updatedState w1;
               w3 = (if readyState (socks w2 sock) = OPEN then close_socket sock w2 else w2)
           in cycle_finally a w3
      else playAIResponse callSid replyText sock languageCode (KCycle a)
             (register callSid updatedState w))"

text \<open>The body of the boundary timer's callback up to its first \<open>await\<close>.\<close>

definition silence_elapsed :: "ref \<Rightarrow> callSid \<Rightarrow> ref \<Rightarrow> world \<Rightarrow> world" where
  "silence_elapsed a callSid sock w =
     (let w1 = upd_obj a (\<lambda>s. s\<lparr>isProcessing := True\<rparr>) w;
          fullPcmBuffer = concat (buffer_of w1 a);
          w2 = upd_obj a (\<lambda>s. s\<lparr>audioBuffer := nextFrameArr w1, hasSpoken := False\<rparr>)
                 (w1\<lparr>frameArrs := (frameArrs w1)(nextFrameArr w1 := []),
                     nextFrameArr := nextFrameArr w1 + 1\<rparr>)
      in spawn (AwaitSTT a callSid sock) (request (SttReq fullPcmBuffer) w2))"

definition stt_done :: "ref \<Rightarrow> callSid \<Rightarrow> ref \<Rightarrow> string \<Rightarrow> string \<Rightarrow> world \<Rightarrow> world" where
  "stt_done a callSid sock transcript languageCode w =
     (if transcript = [] \<or> length (js_trim transcript) < 2 then cycle_finally a w
      else spawn (AwaitFilter a callSid sock transcript languageCode)
             (request (FilterReq transcript (targetLanguage (objs w a)) languageCode) w))"

text \<open>Lines 171 to 189: the reply is the pending manual override, which is cleared, or
  it is asked from the language model, with the injected OTP in the context.\<close>

definition resolve_reply ::
  "ref \<Rightarrow> callSid \<Rightarrow> ref \<Rightarrow> string \<Rightarrow> string \<Rightarrow> world \<Rightarrow> world" where
  "resolve_reply a callSid sock transcript languageCode w =
     (if truthy (manualOverrideResponse w)
      then handle_reply a callSid sock languageCode
             (case manualOverrideResponse w of Some r \<Rightarrow> r | None \<Rightarrow> [])
             ((objs w a)\<lparr>lastIntentProcessed := True\<rparr>)
             (w\<lparr>manualOverrideResponse := None\<rparr>)
      else spawn (AwaitLLM a callSid sock languageCode
                    ((objs w a)\<lparr>ctxLatestReceivedOTP := latestReceivedOTP w\<rparr>))
             (request (LlmReq transcript (latestReceivedOTP w)) w))"

definition filter_done ::
  "ref \<Rightarrow> callSid \<Rightarrow> ref \<Rightarrow> string \<Rightarrow> string \<Rightarrow> bool \<Rightarrow> world \<Rightarrow> world" where
  "filter_done a callSid sock transcript languageCode isFakeAudio w =
     (if isFakeAudio then cycle_finally a w
      else resolve_reply a callSid sock transcript languageCode
             (push_turn (history (objs w a)) (Turn User transcript) w))"

definition fallbackReply :: string where
  "fallbackReply = ''I'' @ [CHR 0x27] @
     ''m sorry, I am having trouble connecting to my brain right now.''"

text \<open>\<open>processCustomerIntent\<close> never rejects: it answers
  \<open>{ replyText, updatedState: { ...callState, lastIntentProcessed: true } }\<close>, or the
  fallback sentence with the state it was given when the provider call fails.\<close>

definition llm_done ::
  "ref \<Rightarrow> callSid \<Rightarrow> ref \<Rightarrow> string \<Rightarrow> callState \<Rightarrow> llmResult \<Rightarrow> world \<Rightarrow> world" where
  "llm_done a callSid sock languageCode snapshot res w =
     (case res of
        LlmReply replyText \<Rightarrow>
          handle_reply a callSid sock languageCode replyText
            (snapshot\<lparr>lastIntentProcessed := True\<rparr>) w
      | LlmError \<Rightarrow>
          handle_reply a callSid sock languageCode fallbackReply snapshot w)"

definition triggerAIResponse :: "callSid \<Rightarrow> string \<Rightarrow> ref \<Rightarrow> world \<Rightarrow> world" where
  "triggerAIResponse callSid initialText sock w =
     (case activeCalls w callSid of
        None \<Rightarrow> w
      | Some a \<Rightarrow>
          if isEnding (objs w a) then w
          else spawn (AwaitLLMTrigger a callSid sock)
                 (request (LlmReq initialText (latestReceivedOTP w))
                   (push_turn (history (objs w a))
                      (Turn Assistant (''(System: Bot was silent. AI is taking initiative: ''
                         @ initialText @ '')'')) w)))"

definition trigger_done :: "ref \<Rightarrow> callSid \<Rightarrow> ref \<Rightarrow> llmResult \<Rightarrow> world \<Rightarrow> world" where
  "trigger_done a callSid sock res w =
     playAIResponse callSid
       (case res of LlmReply replyText \<Rightarrow> replyText | LlmError \<Rightarrow> fallbackReply) sock
       (if targetLanguage (objs w a) = ''English'' then ''en-IN'' else ''hi-IN'') KTop w"

section \<open>Teardown\<close>

text \<open>\<open>endCall\<close> after its polling loop: close the session's socket, then grade a call
  that has a history, or print the line of a skipped call and drop the session.\<close>

definition endCall_finish :: "ref \<Rightarrow> callSid \<Rightarrow> world \<Rightarrow> world" where
  "endCall_finish a callSid w =
     (let w1 = (case ws (objs w a) of
                  None \<Rightarrow> w
                | Some s \<Rightarrow> if readyState (socks w s) = OPEN then close_socket s w else w)
      in if history_of w1 a \<noteq> []
         then spawn (AwaitReport a callSid) (request (ReportReq callSid) w1)
         else (emit (Skipped callSid) w1)\<lparr>activeCalls := (activeCalls w1)(callSid := None)\<rparr>)"

text \<open>The head of the polling loop, entered with \<open>waitLoops\<close> polls done.\<close>

definition endCall_wait :: "ref \<Rightarrow> callSid \<Rightarrow> nat \<Rightarrow> world \<Rightarrow> world" where
  "endCall_wait a callSid waitLoops w =
     (if (isProcessing (objs w a) \<or> silenceTimer (objs w a) \<noteq> None) \<and> waitLoops < 60
      then sleep 100 (EndWait a callSid waitLoops) w
      else endCall_finish a callSid w)"

definition endCall :: "callSid \<Rightarrow> world \<Rightarrow> world" where
  "endCall callSid w =
     (case activeCalls w callSid of
        None \<Rightarrow> w
      | Some a \<Rightarrow>
          if isEnding (objs w a) then w
          else let w1 = upd_obj a (\<lambda>s. s\<lparr>isEnding := True\<rparr>) w;
                   w2 = (case watchdogTimeout (objs w1 a) of
                           None \<Rightarrow> w1
                         | Some h \<Rightarrow> upd_obj a (\<lambda>s. s\<lparr>watchdogTimeout := None\<rparr>)
                                      (clearTimeout h w1))
               in endCall_wait a callSid 0 w2)"

text \<open>\<open>generateTestReport\<close> never rejects; it answers the parsed JSON of the grader
  (\<open>null\<close> is \<open>None\<close>, and reading \<open>report.isBookingConfirmed\<close> then throws into the
  \<open>catch\<close> of \<open>endCall\<close>, after the report line was printed). \<open>confirmed\<close> is
  \<open>Some True\<close> exactly when \<open>report.isBookingConfirmed === true\<close>.\<close>

definition report_done :: "ref \<Rightarrow> callSid \<Rightarrow> report option \<Rightarrow> world \<Rightarrow> world" where
  "report_done a callSid r w =
     (let w1 = emit (Graded callSid (scenario (objs w a)) r) w;
          w2 = (case r of
                  None \<Rightarrow> w1
                | Some rep \<Rightarrow>
                    w1\<lparr>nextScenario :=
                         (if scenario (objs w1 a) = BOOKING \<and> confirmed rep = Some True
                          then CANCELLATION else BOOKING)\<rparr>)
      in w2\<lparr>activeCalls := (activeCalls w2)(callSid := None)\<rparr>)"

text \<open>The callback armed by \<open>resetWatchdog\<close>.\<close>

definition watchdog_elapsed :: "ref \<Rightarrow> callSid \<Rightarrow> string \<Rightarrow> world \<Rightarrow> world" where
  "watchdog_elapsed a callSid reason w =
     endCall callSid
       (push_turn (history (objs w a))
          (Turn Assistant (''[Auto-Terminated: '' @ reason @ '']'')) w)"

section \<open>The event loop\<close>

text \<open>A continuation parked on a sleep is woken by its timer.\<close>

definition wake :: "tid \<Rightarrow> world \<Rightarrow> world" where
  "wake k w =
     (case tasks w k of
        Some (Pacing callSid sock bytes index kt) \<Rightarrow>
          pace callSid sock bytes index kt (retire k w)
      | Some (EndWait a callSid waitLoops) \<Rightarrow>
          endCall_wait a callSid (waitLoops + 1) (retire k w)
      | _ \<Rightarrow> w)"

text \<open>A timer fires only when it is pending and its delay has passed.\<close>

definition expire :: "handle \<Rightarrow> world \<Rightarrow> world" where
  "expire h w =
     (case timers w h of
        None \<Rightarrow> w
      | Some t \<Rightarrow>
          if now w < due t then w
          else (case callback t of
                  SilenceCb a callSid sock \<Rightarrow> silence_elapsed a callSid sock (clearTimeout h w)
                | WatchdogCb a callSid reason \<Rightarrow>
                    watchdog_elapsed a callSid reason (clearTimeout h w)
                | SleepCb k \<Rightarrow> wake k (clearTimeout h w)))"

text \<open>
  The events. The first six are the methods of \<open>CallManager\<close>; \<open>InjectOTP\<close> is the
  \<open>/inject-otp\<close> route of \<open>server.js\<close>; \<open>SetOverride\<close> and \<open>SetLanguage\<close> are writes to
  the public fields \<open>manualOverrideResponse\<close> and \<open>pendingTestLanguage\<close>, which no file
  of the sources performs; \<open>SockState\<close> is the transport changing the state of a
  connection; \<open>Advance\<close> lets time pass; \<open>Expire\<close> fires a timer; the rest are the
  providers answering a parked call.
\<close>

datatype event =
    StartCall callSid "ref option" nat
  | Audio callSid frame ref number
  | EndCall callSid
  | TriggerAI callSid string ref
  | PlayAI callSid string ref string
  | ResetWatchdog callSid nat string
  | InjectOTP string
  | SetOverride "string option"
  | SetLanguage string
  | SockState ref readyState
  | Advance nat
  | Expire handle
  | SttDone tid string string
  | FilterDone tid bool
  | LlmDone tid llmResult
  | TtsDone tid ttsResult
  | ReportDone tid "report option"

fun step :: "event \<Rightarrow> world \<Rightarrow> world" where
  "step (StartCall callSid sock rnd) w = startCall callSid sock rnd w"
| "step (Audio callSid audioChunk sock rms) w = handleIncomingAudio callSid audioChunk sock rms w"
| "step (EndCall callSid) w = endCall callSid w"
| "step (TriggerAI callSid initialText sock) w = triggerAIResponse callSid initialText sock w"
| "step (PlayAI callSid replyText sock languageCode) w =
     playAIResponse callSid replyText sock languageCode KTop w"
| "step (ResetWatchdog callSid ms reason) w = resetWatchdog callSid ms reason w"
| "step (InjectOTP otpCode) w =
     (if otpCode \<noteq> [] then w\<lparr>latestReceivedOTP := Some otpCode\<rparr> else w)"
| "step (SetOverride v) w = w\<lparr>manualOverrideResponse := v\<rparr>"
| "step (SetLanguage l) w = w\<lparr>pendingTestLanguage := l\<rparr>"
| "step (SockState s st) w = w\<lparr>socks := (socks w)(s := (socks w s)\<lparr>readyState := st\<rparr>)\<rparr>"
| "step (Advance d) w = w\<lparr>now := now w + d\<rparr>"
| "step (Expire h) w = expire h w"
| "step (SttDone k transcript languageCode) w =
     (case tasks w k of
        Some (AwaitSTT a callSid sock) \<Rightarrow>
          stt_done a callSid sock transcript languageCode (retire k w)
      | _ \<Rightarrow> w)"
| "step (FilterDone k isFakeAudio) w =
     (case tasks w k of
        Some (AwaitFilter a callSid sock transcript languageCode) \<Rightarrow>
          filter_done a callSid sock transcript languageCode isFakeAudio (retire k w)
      | _ \<Rightarrow> w)"
| "step (LlmDone k res) w =
     (case tasks w k of
        Some (AwaitLLM a callSid sock languageCode snapshot) \<Rightarrow>
          llm_done a callSid sock languageCode snapshot res (retire k w)
      | Some (AwaitLLMTrigger a callSid sock) \<Rightarrow>
          trigger_done a callSid sock res (retire k w)
      | _ \<Rightarrow> w)"
| "step (TtsDone k res) w =
     (case tasks w k of
        Some (AwaitTTS callSid sock kt) \<Rightarrow> tts_done callSid sock kt res (retire k w)
      | _ \<Rightarrow> w)"
| "step (ReportDone k r) w =
     (case tasks w k of
        Some (AwaitReport a callSid) \<Rightarrow> report_done a callSid r (retire k w)
      | _ \<Rightarrow> w)"

text \<open>Events are processed one at a time, in the order they occur.\<close>

definition run :: "event list \<Rightarrow> world \<Rightarrow> world" where
  "run es w = foldl (\<lambda>v e. step e v) w es"

text \<open>The state after \<open>new CallManager()\<close>. Unused addresses of the stores hold a blank
  session, empty arrays and open connections.\<close>

definition blank :: callState where
  "blank = \<lparr>history = 0, isBookingConfirmed = False, scenario = BOOKING,
     targetLanguage = [], symptom = [], startTime = 0, audioBuffer = 0,
     silenceTimer = None, watchdogTimeout = None, hasSpoken = False,
     isProcessing = False, isEnding = False, ws = None, packetCount = 0,
     lastIntentProcessed = False, ctxLatestReceivedOTP = None\<rparr>"

definition init :: world where
  "init = \<lparr>activeCalls = Map.empty, nextScenario = BOOKING,
     pendingTestLanguage = ''English'', manualOverrideResponse = None,
     latestReceivedOTP = None, objs = (\<lambda>_. blank), nextObj = 0,
     turnArrs = (\<lambda>_. []), nextTurnArr = 0, frameArrs = (\<lambda>_. []), nextFrameArr = 0,
     socks = (\<lambda>_. \<lparr>readyState = OPEN, sent = []\<rparr>), timers = Map.empty, nextTimer = 0,
     tasks = Map.empty, nextTask = 0, now = 0, requests = [], reports = []\<rparr>"

section \<open>Observations on a state\<close>

text \<open>The timers that are armed, oldest first, with what they will run.\<close>

definition pending_timers :: "world \<Rightarrow> (handle \<times> callback) list" where
  "pending_timers w =
     concat (map (\<lambda>h. case timers w h of None \<Rightarrow> [] | Some t \<Rightarrow> [(h, callback t)])
       [0..<nextTimer w])"

fun is_boundary :: "callSid \<Rightarrow> callback \<Rightarrow> bool" where
  "is_boundary callSid (SilenceCb a s sock) = (s = callSid)"
| "is_boundary callSid (WatchdogCb a s reason) = False"
| "is_boundary callSid (SleepCb k) = False"

fun is_watchdog :: "callSid \<Rightarrow> callback \<Rightarrow> bool" where
  "is_watchdog callSid (WatchdogCb a s reason) = (s = callSid)"
| "is_watchdog callSid (SilenceCb a s sock) = False"
| "is_watchdog callSid (SleepCb k) = False"

definition boundary_timers :: "world \<Rightarrow> callSid \<Rightarrow> handle list" where
  "boundary_timers w callSid =
     map fst (filter (\<lambda>p. is_boundary callSid (snd p)) (pending_timers w))"

definition watchdog_timers :: "world \<Rightarrow> callSid \<Rightarrow> handle list" where
  "watchdog_timers w callSid =
     map fst (filter (\<lambda>p. is_watchdog callSid (snd p)) (pending_timers w))"

text \<open>The parked continuations that belong to a turn cycle of a call: the callback of a
  boundary timer that has started and not yet reached its \<open>finally\<close> block.\<close>

fun is_cycle_task :: "callSid \<Rightarrow> task \<Rightarrow> bool" where
  "is_cycle_task callSid (AwaitSTT a s sock) = (s = callSid)"
| "is_cycle_task callSid (AwaitFilter a s sock t l) = (s = callSid)"
| "is_cycle_task callSid (AwaitLLM a s sock l snapshot) = (s = callSid)"
| "is_cycle_task callSid (AwaitTTS s sock (KCycle a)) = (s = callSid)"
| "is_cycle_task callSid (Pacing s sock bytes index (KCycle a)) = (s = callSid)"
| "is_cycle_task callSid _ = False"

definition cycles_in_flight :: "world \<Rightarrow> callSid \<Rightarrow> tid list" where
  "cycles_in_flight w callSid =
     filter (\<lambda>k. case tasks w k of None \<Rightarrow> False | Some t \<Rightarrow> is_cycle_task callSid t)
       [0..<nextTask w]"

definition scenario_of :: "world \<Rightarrow> callSid \<Rightarrow> scenario option" where
  "scenario_of w callSid = map_option (\<lambda>a. scenario (objs w a)) (activeCalls w callSid)"

fun is_llm_request :: "request \<Rightarrow> bool" where
  "is_llm_request (LlmReq t otp) = True"
| "is_llm_request _ = False"

text \<open>A frame that does not pass the loudness gate.\<close>

fun calm_frame :: "callSid \<Rightarrow> event \<Rightarrow> bool" where
  "calm_frame callSid (Audio s audioChunk sock rms) = (s = callSid \<and> \<not> loud rms)"
| "calm_frame callSid _ = False"

section \<open>Recorded runs\<close>

text \<open>
  Event sequences used below, with the times at which the events occur. One call
  \<open>CA1\<close> on connection 0; the remote party is loud for a frame and then quiet, so that a
  boundary timer is armed, and the timer fires 1200 ms later.
\<close>

definition said_hello :: string where
  "said_hello = ''Hello, how can I help you''"

definition said_there :: string where
  "said_there = ''Are you there''"

definition said_cut :: string where
  "said_cut = ''Your appointment is confirmed for''"

definition reply_here :: string where
  "reply_here = ''Yes, I am here''"

definition reply_book :: string where
  "reply_book = ''I want to book an appointment''"

definition loud_frame :: event where
  "loud_frame = Audio ''CA1'' [12, 0, 250, 255] 0 (Num 900)"

definition quiet_frame :: event where
  "quiet_frame = Audio ''CA1'' [1, 0, 255, 255] 0 (Num 40)"

definition armed_run :: "event list" where
  "armed_run =
     [StartCall ''CA1'' None 0, Advance 20, loud_frame, Advance 20, quiet_frame,
      Advance 1200]"

definition first_boundary :: "event list" where
  "first_boundary = armed_run @ [Expire 0]"

text \<open>The remote party speaks again while the first cycle waits for its transcript, and
  the transcription takes longer than the second boundary delay.\<close>

definition overlap_prefix :: "event list" where
  "overlap_prefix =
     first_boundary @ [Advance 20, loud_frame, Advance 20, quiet_frame, Advance 1200]"

definition overlap_run :: "event list" where
  "overlap_run = overlap_prefix @ [Expire 1]"

text \<open>The remote party speaks again while the first cycle waits for its transcript, and
  the transcript comes back empty before the second boundary delay is over.\<close>

definition orphan_run :: "event list" where
  "orphan_run =
     first_boundary @ [Advance 20, loud_frame, Advance 20, quiet_frame,
       Advance 700, SttDone 0 [] ''en-IN'', Advance 20]"

text \<open>Two overlapping cycles; the language model answers the second one first.\<close>

definition stale_run :: "event list" where
  "stale_run =
     first_boundary @ [Advance 20, loud_frame, Advance 20, quiet_frame,
       Advance 400, SttDone 0 said_hello ''en-IN'',
       Advance 300, FilterDone 1 False,
       Advance 500, Expire 1,
       Advance 600, SttDone 3 said_there ''en-IN'',
       Advance 300, FilterDone 4 False,
       Advance 800, LlmDone 5 (LlmReply reply_here),
       Advance 500, TtsDone 6 (TtsAudio [100, - 200, 20000]),
       Advance 200, LlmDone 2 (LlmReply reply_book),
       Advance 500, TtsDone 7 (TtsAudio [300, - 20000])]"

text \<open>\<open>polls n h\<close>: the sleep timers \<open>h\<close>, \<open>h + 1\<close>, ... of a polling loop fire one after
  the other, 100 ms apart.\<close>

fun polls :: "nat \<Rightarrow> handle \<Rightarrow> event list" where
  "polls 0 h = []"
| "polls (Suc n) h = Expire h # Advance 100 # polls n (h + 1)"

definition failed_report :: report where
  "failed_report = \<lparr>status = ''Failed'', confirmed = Some False\<rparr>"

text \<open>The call is stopped while the language model is asked; the model answers; then the
  connection closes and the call is ended a second time.\<close>

definition double_end_head :: "event list" where
  "double_end_head =
     first_boundary @
      [Advance 600, SttDone 0 said_hello ''en-IN'',
       Advance 300, FilterDone 1 False,
       Advance 100, EndCall ''CA1'',
       Advance 50, LlmDone 2 (LlmReply reply_book),
       Advance 10, SockState 0 CLOSED, EndCall ''CA1'']"

definition double_end_run :: "event list" where
  "double_end_run =
     double_end_head @
      [Advance 30, TtsDone 4 (TtsAudio [300, - 20000]),
       Advance 10, Expire 1, Advance 60] @
      polls 20 2 @ [ReportDone 6 (Some failed_report)] @
      polls 40 22 @ [ReportDone 66 (Some failed_report)]"

text \<open>A confirmed booking, then a call that ends before anything was said, then a third
  call.\<close>

definition passed_report :: report where
  "passed_report = \<lparr>status = ''Passed'', confirmed = Some True\<rparr>"

definition booked_run :: "event list" where
  "booked_run =
     first_boundary @
      [Advance 600, SttDone 0 said_cut ''en-IN'',
       Advance 300, FilterDone 1 False,
       Advance 900, LlmDone 2 (LlmReply ''WAIT''),
       Advance 20, loud_frame, Advance 20, quiet_frame,
       Advance 1200, Expire 1,
       Advance 600, SttDone 3 [] ''en-IN'',
       Advance 5000, EndCall ''CA1'',
       Advance 2000, ReportDone 4 (Some passed_report),
       Advance 60000, StartCall ''CA2'' None 3]"

definition silent_run :: "event list" where
  "silent_run =
     booked_run @ [Advance 5000, EndCall ''CA2'', Advance 60000, StartCall ''CA3'' None 5]"

text \<open>A call that is being torn down while its boundary timer is armed.\<close>

definition ending_run :: "event list" where
  "ending_run =
     [StartCall ''CA1'' None 0, Advance 20, loud_frame, Advance 20, quiet_frame,
      Advance 100, EndCall ''CA1'']"

text \<open>States at which the theorems below are instantiated.\<close>

definition fresh_call :: world where
  "fresh_call = run [StartCall ''CA1'' None 0] init"

definition armed_call :: world where
  "armed_call = run armed_run init"

definition ending_call :: world where
  "ending_call = run ending_run init"

definition overridden_call :: world where
  "overridden_call = run [StartCall ''CA1'' None 0, SetOverride (Some reply_here)] init"

definition second_call :: world where
  "second_call = run booked_run init"

definition crowded_call :: world where
  "crowded_call =
     fresh_call\<lparr>frameArrs := (frameArrs fresh_call)(0 := replicate 150 [1, 0, 255, 255])\<rparr>"

section \<open>Evaluating runs\<close>

text \<open>
  A recorded run is evaluated by rewriting with the definitions, one event after the
  other. The equation of \<open>pace\<close> is recursive and is only unfolded there.
\<close>

declare pace.simps [simp del]

lemmas runtime_defs = upd_obj_def push_turn_def push_frame_def setTimeout_def clearTimeout_def
  spawn_def retire_def sleep_def request_def emit_def close_socket_def send_def buffer_of_def
  history_of_def slice_last_def

lemmas engine_defs = resetWatchdog_def startCall_def symptomOptions_def LOUDNESS_THRESHOLD_def
  trim_buffer_def cap_buffer_def on_loud_def arm_boundary_def handleIncomingAudio_def
  cycle_finally_def play_audio_def pace.simps boost_def toInt16_def VOLUME_MULTIPLIER_def
  CHUNK_SIZE_BYTES_def playAIResponse_def tts_done_def register_def handle_reply_def
  silence_elapsed_def stt_done_def resolve_reply_def filter_done_def llm_done_def
  triggerAIResponse_def trigger_done_def endCall_finish_def endCall_wait_def endCall_def
  report_done_def watchdog_elapsed_def wake_def expire_def

lemmas observe_defs = pending_timers_def boundary_timers_def watchdog_timers_def
  cycles_in_flight_def scenario_of_def upt_rec

lemma polls_unfold: "0 < n \<Longrightarrow> polls n h = Expire h # Advance 100 # polls (n - 1) (h + 1)"
  by (cases n) simp_all

lemma said_hello_speech:
  "said_hello \<noteq> []" "\<not> length (js_trim said_hello) < 2"
  by (simp_all add: said_hello_def js_trim_def is_ws_def)

lemma said_there_speech:
  "said_there \<noteq> []" "\<not> length (js_trim said_there) < 2"
  by (simp_all add: said_there_def js_trim_def is_ws_def)

lemma said_cut_speech:
  "said_cut \<noteq> []" "\<not> length (js_trim said_cut) < 2"
  by (simp_all add: said_cut_def js_trim_def is_ws_def)

lemma reply_here_speech:
  "reply_here \<noteq> []" "js_trim reply_here \<noteq> ''WAIT''" "js_trim reply_here \<noteq> ''END_CALL_LOOP''"
  by (simp_all add: reply_here_def js_trim_def is_ws_def)

lemma reply_book_speech:
  "js_trim reply_book \<noteq> ''WAIT''" "js_trim reply_book \<noteq> ''END_CALL_LOOP''"
  by (simp_all add: reply_book_def js_trim_def is_ws_def)

lemma control_token_texts:
  "js_trim ''WAIT'' = ''WAIT''" "js_trim '' WAIT '' = ''WAIT''"
  "js_trim ''END_CALL_LOOP'' = ''END_CALL_LOOP''"
  by (simp_all add: js_trim_def is_ws_def)

lemmas run_defs = run_def init_def loud_frame_def quiet_frame_def armed_run_def
  first_boundary_def said_hello_speech said_there_speech said_cut_speech reply_here_speech
  reply_book_speech control_token_texts polls_unfold Let_def

lemmas eval = run_defs engine_defs runtime_defs observe_defs

lemma state_facts:
  "activeCalls fresh_call ''CA1'' = Some 0"
  "\<not> hasSpoken (objs fresh_call 0)"
  "buffer_of fresh_call 0 = []"
  "manualOverrideResponse fresh_call = None"
  "latestReceivedOTP fresh_call = None"
  "activeCalls init ''CA1'' = None"
  "timers armed_call 0 = Some \<lparr>due = 1240, callback = SilenceCb 0 ''CA1'' 0\<rparr>"
  "now armed_call = 1240"
  "activeCalls armed_call ''CA1'' = Some 0"
  "activeCalls ending_call ''CA1'' = Some 0"
  "isEnding (objs ending_call 0)"
  "activeCalls overridden_call ''CA1'' = Some 0"
  "manualOverrideResponse overridden_call = Some reply_here"
  "\<not> isEnding (objs overridden_call 0)"
  "activeCalls crowded_call ''CA1'' = Some 0"
  "\<not> hasSpoken (objs crowded_call 0)"
  "buffer_of crowded_call 0 = replicate 150 [1, 0, 255, 255]"
  "activeCalls second_call ''CA2'' = Some 2"
  "history_of second_call 2 = []"
  "nextScenario second_call = CANCELLATION"
  "scenario (objs second_call 2) = CANCELLATION"
  by (simp_all add: fresh_call_def armed_call_def ending_call_def overridden_call_def
      crowded_call_def second_call_def booked_run_def passed_report_def ending_run_def eval
      del: fun_upd_None_if_notin_dom replicate.simps cong: let_weak_cong)

section \<open>Frame buffer\<close>

lemma cap_buffer_buffer:
  "buffer_of (cap_buffer a w) a =
     (if \<not> hasSpoken (objs w a) \<and> length (buffer_of w a) > 150
      then slice_last 50 (buffer_of w a)
      else if hasSpoken (objs w a) \<and> length (buffer_of w a) > 1400
      then slice_last 1400 (buffer_of w a)
      else buffer_of w a)"
  by (simp add: cap_buffer_def trim_buffer_def buffer_of_def upd_obj_def Let_def)

lemma cap_buffer_hasSpoken: "hasSpoken (objs (cap_buffer a w) a) = hasSpoken (objs w a)"
  by (simp add: cap_buffer_def trim_buffer_def upd_obj_def Let_def)

lemma on_loud_buffer: "buffer_of (on_loud a w) a = buffer_of w a"
  by (simp add: on_loud_def buffer_of_def upd_obj_def clearTimeout_def Let_def
      split: option.splits)

lemma on_loud_hasSpoken: "hasSpoken (objs (on_loud a w) a)"
  by (simp add: on_loud_def upd_obj_def Let_def)

lemma arm_boundary_buffer: "buffer_of (arm_boundary a callSid sock w) a = buffer_of w a"
  by (simp add: arm_boundary_def buffer_of_def upd_obj_def setTimeout_def)

lemma arm_boundary_hasSpoken:
  "hasSpoken (objs (arm_boundary a callSid sock w) a) = hasSpoken (objs w a)"
  by (simp add: arm_boundary_def upd_obj_def setTimeout_def)

lemma push_frame_buffer:
  "buffer_of (push_frame (audioBuffer (objs w a)) f w) a = buffer_of w a @ [f]"
  by (simp add: push_frame_def buffer_of_def)

lemma push_frame_objs: "objs (push_frame b f w) = objs w"
  by (simp add: push_frame_def)

lemma count_packet_buffer:
  "buffer_of (upd_obj a (\<lambda>s. s\<lparr>packetCount := g s\<rparr>) w) a = buffer_of w a"
  by (simp add: buffer_of_def upd_obj_def)

lemma count_packet_hasSpoken:
  "hasSpoken (objs (upd_obj a (\<lambda>s. s\<lparr>packetCount := g s\<rparr>) w) a) = hasSpoken (objs w a)"
  by (simp add: upd_obj_def)

lemma slice_last_length: "length (slice_last n xs) \<le> n"
  by (simp add: slice_last_def)

lemma slice_last_suffix: "suffix (slice_last n xs) xs"
  by (simp add: slice_last_def suffix_drop)

lemma handleIncomingAudio_buffer:
  assumes "activeCalls w callSid = Some a"
  shows "buffer_of (handleIncomingAudio callSid audioChunk sock rms w) a =
     (if \<not> hasSpoken (objs w a) \<and> length (buffer_of w a @ [audioChunk]) > 150
      then slice_last 50 (buffer_of w a @ [audioChunk])
      else if hasSpoken (objs w a) \<and> length (buffer_of w a @ [audioChunk]) > 1400
      then slice_last 1400 (buffer_of w a @ [audioChunk])
      else buffer_of w a @ [audioChunk])"
  using assms
  by (simp add: handleIncomingAudio_def Let_def arm_boundary_buffer on_loud_buffer
      cap_buffer_buffer cap_buffer_hasSpoken push_frame_buffer push_frame_objs
      count_packet_buffer count_packet_hasSpoken)

lemma handleIncomingAudio_hasSpoken:
  assumes "activeCalls w callSid = Some a"
  shows "hasSpoken (objs (handleIncomingAudio callSid audioChunk sock rms w) a) =
     (hasSpoken (objs w a) \<or> loud rms)"
  using assms
  by (simp add: handleIncomingAudio_def Let_def arm_boundary_hasSpoken on_loud_hasSpoken
      cap_buffer_hasSpoken push_frame_objs count_packet_hasSpoken)

text \<open>
  Claim C3. After a call of \<open>handleIncomingAudio\<close> for a registered session, from any
  state whatever (so after every frame of every sequence, whatever happened in between),
  the buffer of the session holds at most 150 frames when \<open>hasSpoken\<close> is false and at
  most 1400 when it is true. The new buffer is a suffix of the old one with the frame
  appended: all of it, or its last 50 frames when the pre-speech cap was exceeded, or
  its last 1400 frames when the in-speech cap was exceeded.
\<close>

theorem buffer_caps:
  assumes "activeCalls w callSid = Some a"
  shows "length (buffer_of (handleIncomingAudio callSid audioChunk sock rms w) a)
           \<le> (if hasSpoken (objs (handleIncomingAudio callSid audioChunk sock rms w) a)
               then 1400 else 150) \<and>
         suffix (buffer_of (handleIncomingAudio callSid audioChunk sock rms w) a)
           (buffer_of w a @ [audioChunk]) \<and>
         buffer_of (handleIncomingAudio callSid audioChunk sock rms w) a =
           (if \<not> hasSpoken (objs w a) \<and> length (buffer_of w a @ [audioChunk]) > 150
            then slice_last 50 (buffer_of w a @ [audioChunk])
            else if hasSpoken (objs w a) \<and> length (buffer_of w a @ [audioChunk]) > 1400
            then slice_last 1400 (buffer_of w a @ [audioChunk])
            else buffer_of w a @ [audioChunk])"
proof -
  let ?w' = "handleIncomingAudio callSid audioChunk sock rms w"
  let ?old = "buffer_of w a @ [audioChunk]"
  note b = handleIncomingAudio_buffer [OF assms, of audioChunk sock rms]
  note h = handleIncomingAudio_hasSpoken [OF assms, of audioChunk sock rms]
  have len: "length (buffer_of ?w' a) \<le> (if hasSpoken (objs ?w' a) then 1400 else 150)"
  proof (cases "hasSpoken (objs w a)")
    case True
    then show ?thesis
      unfolding b h using slice_last_length [of 1400 ?old] by auto
  next
    case False
    have "length (slice_last 50 ?old) \<le> 150"
      using slice_last_length [of 50 ?old] by linarith
    with False show ?thesis
      unfolding b h by auto
  qed
  have suf: "suffix (buffer_of ?w' a) ?old"
    unfolding b using slice_last_suffix [of _ ?old] by auto
  from len suf b show ?thesis by blast
qed

theorem buffer_caps_witness:
  "buffer_of (handleIncomingAudio ''CA1'' [7, 0, 250, 255] 0 (Num 40) fresh_call) 0
     = [[7, 0, 250, 255]] \<and>
   buffer_of (handleIncomingAudio ''CA1'' [7, 0, 250, 255] 0 (Num 40) crowded_call) 0
     = replicate 49 [1, 0, 255, 255] @ [[7, 0, 250, 255]]"
  using buffer_caps [OF state_facts(1), of "[7, 0, 250, 255]" 0 "Num 40"]
    buffer_caps [OF state_facts(15), of "[7, 0, 250, 255]" 0 "Num 40"]
  by (simp add: state_facts slice_last_def)

section \<open>Playback gain\<close>

lemma toInt16_in_range:
  assumes "- 32768 \<le> x" and "x \<le> 32767"
  shows "toInt16 x = (if x \<ge> 0 then \<lfloor>x\<rfloor> else \<lceil>x\<rceil>)"
proof -
  let ?n = "if x \<ge> 0 then \<lfloor>x\<rfloor> else \<lceil>x\<rceil>"
  have "- 32768 \<le> ?n"
    using assms by (auto simp: le_floor_iff le_ceiling_iff)
  moreover have "?n \<le> 32767"
    using assms by (auto simp: floor_le_iff ceiling_le_iff)
  ultimately have "(?n + 32768) mod 65536 = ?n + 32768"
    by simp
  then show ?thesis
    unfolding toInt16_def by simp
qed

text \<open>
  Claim C9. For a 16-bit sample, the value stored by the volume loop is the product with
  the gain, cut off at 32767 and at -32768 and then truncated towards zero; it lies in
  the 16-bit range, and the conversion into the \<open>Int16Array\<close> never wraps it.
\<close>

theorem boost_clamps:
  assumes "- 32768 \<le> sample" and "sample \<le> 32767"
  shows "- 32768 \<le> boost sample \<and> boost sample \<le> 32767 \<and>
         boost sample =
           (if 32767 < real_of_int sample * VOLUME_MULTIPLIER then 32767
            else if real_of_int sample * VOLUME_MULTIPLIER < - 32768 then - 32768
            else if 0 \<le> sample then \<lfloor>real_of_int sample * VOLUME_MULTIPLIER\<rfloor>
            else \<lceil>real_of_int sample * VOLUME_MULTIPLIER\<rceil>)"
proof -
  let ?p = "real_of_int sample * VOLUME_MULTIPLIER"
  let ?c = "if ?p > 32767 then 32767 else if ?p < - 32768 then - 32768 else ?p"
  have b: "boost sample = toInt16 ?c"
    by (simp add: boost_def Let_def)
  have r: "- 32768 \<le> ?c" "?c \<le> 32767"
    by auto
  have sgn: "(0 \<le> ?p) = (0 \<le> sample)"
    by (simp add: VOLUME_MULTIPLIER_def zero_le_mult_iff)
  have e: "toInt16 ?c = (if ?c \<ge> 0 then \<lfloor>?c\<rfloor> else \<lceil>?c\<rceil>)"
    using toInt16_in_range [OF r] .
  have v: "boost sample =
           (if 32767 < ?p then 32767 else if ?p < - 32768 then - 32768
            else if 0 \<le> sample then \<lfloor>?p\<rfloor> else \<lceil>?p\<rceil>)"
    unfolding b e using sgn by auto
  have lo: "- 32768 \<le> boost sample"
    unfolding v by (auto simp: le_floor_iff le_ceiling_iff)
  have hi: "boost sample \<le> 32767"
    unfolding v by (auto simp: floor_le_iff ceiling_le_iff)
  from v lo hi show ?thesis by blast
qed

theorem boost_clamps_witness:
  "boost 32767 = 32767 \<and> boost (- 32768) = - 32768 \<and> boost 13107 = 32767 \<and>
   boost (- 13108) = - 32768 \<and> boost 3 = 7 \<and> boost (- 3) = - 7"
  using boost_clamps [of 32767] boost_clamps [of "- 32768"] boost_clamps [of 13107]
    boost_clamps [of "- 13108"] boost_clamps [of 3] boost_clamps [of "- 3"]
  by (simp add: VOLUME_MULTIPLIER_def)

section \<open>Absent and ending sessions\<close>

text \<open>
  Claim C10. For a call identifier that is not in the registry, \<open>handleIncomingAudio\<close>,
  \<open>resetWatchdog\<close>, \<open>endCall\<close> and \<open>triggerAIResponse\<close> leave the state as it is, and
  \<open>playAIResponse\<close> returns at once to whoever awaits it (\<open>resume KTop w = w\<close>). The
  last two do the same for a registered session whose \<open>isEnding\<close> flag is set.
\<close>

theorem absent_session_noop:
  "(activeCalls w callSid = None \<longrightarrow>
      handleIncomingAudio callSid audioChunk sock rms w = w \<and>
      resetWatchdog callSid ms reason w = w \<and>
      endCall callSid w = w \<and>
      triggerAIResponse callSid initialText sock w = w \<and>
      playAIResponse callSid replyText sock languageCode k w = resume k w \<and>
      playAIResponse callSid replyText sock languageCode KTop w = w) \<and>
   (\<forall>a. activeCalls w callSid = Some a \<and> isEnding (objs w a) \<longrightarrow>
      triggerAIResponse callSid initialText sock w = w \<and>
      playAIResponse callSid replyText sock languageCode k w = resume k w \<and>
      playAIResponse callSid replyText sock languageCode KTop w = w)"
  by (simp add: handleIncomingAudio_def resetWatchdog_def endCall_def triggerAIResponse_def
      playAIResponse_def)

theorem absent_session_noop_witness:
  "handleIncomingAudio ''CA1'' [7, 0, 250, 255] 0 (Num 900) init = init \<and>
   resetWatchdog ''CA1'' 45000 HUNG_REASON init = init \<and>
   endCall ''CA1'' init = init \<and>
   triggerAIResponse ''CA1'' said_hello 0 init = init \<and>
   playAIResponse ''CA1'' reply_here 0 ''en-IN'' KTop init = init \<and>
   triggerAIResponse ''CA1'' said_hello 0 ending_call = ending_call \<and>
   playAIResponse ''CA1'' reply_here 0 ''en-IN'' KTop ending_call = ending_call"
  using absent_session_noop [of init "''CA1''" "[7, 0, 250, 255]" 0 "Num 900" 45000 HUNG_REASON
      said_hello reply_here "''en-IN''" KTop]
    absent_session_noop [of ending_call "''CA1''" "[7, 0, 250, 255]" 0 "Num 900" 45000
      HUNG_REASON said_hello reply_here "''en-IN''" KTop]
    state_facts(6,10,11)
  by simp

end
